theory Spec2Isabelle
  imports Main
begin

section \<open>The MCP client session of MCP-Bridge\<close>

text \<open>
  A shallow embedding of \<^verbatim>\<open>src/mcp_bridge/mcp_clients/session.py\<close>, the class
  \<^verbatim>\<open>McpClientSession\<close>. Every \<^verbatim>\<open>async\<close> method becomes a function that takes the
  session and returns its result together with the session it leaves behind. A value
  that the source obtains by awaiting the peer (the reply to a request) is an argument
  of the function. Exceptions are values: a method returns \<open>Inl e\<close> where the source
  raises \<open>e\<close>.
\<close>

subsection \<open>Exceptions and logging\<close>

text \<open>
  The instances of Python's \<^verbatim>\<open>Exception\<close> that the source tells apart:
  \<^verbatim>\<open>anyio.ClosedResourceError\<close>, which the consumer loop catches by name, the
  \<^verbatim>\<open>RuntimeError\<close> raised by \<^verbatim>\<open>initialize\<close>, the validation error of a pydantic
  constructor, and every other one. All of them are caught by \<^verbatim>\<open>except Exception\<close>.
  Task cancellation is not an \<^verbatim>\<open>Exception\<close> and is outside this model.
\<close>

datatype exn =
    ClosedResourceError
  | RuntimeError string
  | ValidationError string
  | OtherException string

text \<open>
  \<^verbatim>\<open>loguru\<close>'s logger, made observable: an entry keeps the level and the literal text of
  the message; \<^verbatim>\<open>logger.exception\<close> also keeps the exception it reports.
\<close>

datatype level = DEBUG | INFO | WARNING | ERROR

datatype log_entry =
    Log level string
  | LogException string exn

subsection \<open>Constants imported by the module\<close>

text \<open>
  \<^verbatim>\<open>types.LATEST_PROTOCOL_VERSION\<close> and \<^verbatim>\<open>SUPPORTED_PROTOCOL_VERSIONS\<close> belong to the
  \<^verbatim>\<open>mcp\<close> library and \<^verbatim>\<open>version\<close> is \<^verbatim>\<open>mcp_bridge.__version__\<close>; none of the three is
  defined in the file, so they are taken as given.
\<close>

record module_constants =
  LATEST_PROTOCOL_VERSION :: string
  SUPPORTED_PROTOCOL_VERSIONS :: "string list"
  version :: string

subsection \<open>Payloads\<close>

datatype SamplingCapability = SamplingCapability

datatype RootsCapability = RootsCapability (listChanged: "bool option")

datatype ClientCapabilities =
  ClientCapabilities
    (sampling: "SamplingCapability option")
    (experimental: "string option")
    (roots: "RootsCapability option")

datatype Implementation = Implementation (impl_name: string) (impl_version: string)

datatype InitializeRequestParams =
  InitializeRequestParams
    (protocolVersion: string)
    (capabilities: ClientCapabilities)
    (clientInfo: Implementation)

text \<open>
  The peer's \<^verbatim>\<open>types.InitializeResult\<close>: the negotiated version and the rest of the
  reply, which \<^verbatim>\<open>initialize\<close> hands on without reading.
\<close>

datatype InitializeResult =
  InitializeResult (result_protocolVersion: string) (serverInfo: string)

text \<open>
  Values that the session only carries. A \<^verbatim>\<open>dict\<close> is an association list read with
  \<open>map_of\<close>; a pydantic result model is identified with its field dictionary, which
  is what \<^verbatim>\<open>model_dump()\<close> returns; a float is a pair of mantissa and exponent.
\<close>

type_synonym dict = "(string \<times> string) list"

type_synonym AnyUrl = string

type_synonym LoggingLevel = string

datatype float = Float int int

datatype ProgressToken = TokenStr string | TokenInt int

datatype reference = ResourceReference string | PromptReference string

datatype CompletionArgument = CompletionArgument string string

datatype RequestId = IdInt int | IdStr string

datatype CreateMessageRequestParams = CreateMessageRequestParams dict

datatype CreateMessageResult = CreateMessageResult (model_dump: dict)

datatype ClientResult = ClientResult dict

datatype ErrorData = ErrorData int string

subsection \<open>Requests, notifications and envelopes\<close>

text \<open>
  \<^verbatim>\<open>types.ClientRequest\<close> and \<^verbatim>\<open>types.ClientNotification\<close>: one constructor for each
  request class the file builds. The first argument is the \<^verbatim>\<open>method\<close> keyword of the
  source, the others are the fields of its \<^verbatim>\<open>params\<close>.
\<close>

datatype ClientRequest =
    InitializeRequest string InitializeRequestParams
  | PingRequest string
  | SetLevelRequest string LoggingLevel
  | ListResourcesRequest string
  | ReadResourceRequest string AnyUrl
  | SubscribeRequest string AnyUrl
  | UnsubscribeRequest string AnyUrl
  | CallToolRequest string string "dict option"
  | ListPromptsRequest string
  | GetPromptRequest string string "dict option"
  | CompleteRequest string reference CompletionArgument
  | ListToolsRequest string

datatype ClientNotification =
    InitializedNotification string
  | ProgressNotification string ProgressToken float "float option"
  | RootsListChangedNotification string

text \<open>
  What travels on the outbound stream. The session of the source writes requests,
  notifications and success responses; it has no code that builds a \<open>ResponseError\<close>.
\<close>

datatype Envelope =
    Request RequestId ClientRequest
  | Notification ClientNotification
  | Response RequestId ClientResult
  | ResponseError RequestId ErrorData

fun request_method :: "ClientRequest \<Rightarrow> string" where
  "request_method (InitializeRequest m _) = m"
| "request_method (PingRequest m) = m"
| "request_method (SetLevelRequest m _) = m"
| "request_method (ListResourcesRequest m) = m"
| "request_method (ReadResourceRequest m _) = m"
| "request_method (SubscribeRequest m _) = m"
| "request_method (UnsubscribeRequest m _) = m"
| "request_method (CallToolRequest m _ _) = m"
| "request_method (ListPromptsRequest m) = m"
| "request_method (GetPromptRequest m _ _) = m"
| "request_method (CompleteRequest m _ _) = m"
| "request_method (ListToolsRequest m) = m"

fun notification_method :: "ClientNotification \<Rightarrow> string" where
  "notification_method (InitializedNotification m) = m"
| "notification_method (ProgressNotification m _ _ _) = m"
| "notification_method (RootsListChangedNotification m) = m"

text \<open>The wire method of an envelope; a response carries none.\<close>

fun wire_method :: "Envelope \<Rightarrow> string option" where
  "wire_method (Request _ r) = Some (request_method r)"
| "wire_method (Notification n) = Some (notification_method n)"
| "wire_method (Response _ _) = None"
| "wire_method (ResponseError _ _) = None"

subsection \<open>Inbound items\<close>

text \<open>
  \<^verbatim>\<open>types.ServerRequest\<close>: the sampling request, which is the one
  \<^verbatim>\<open>_received_request\<close> tests for, and every other request of the peer, kept with its
  method name.
\<close>

datatype ServerRequest =
    CreateMessageRequest CreateMessageRequestParams
  | OtherServerRequest string

datatype RequestResponder =
  RequestResponder (request_id: RequestId) (request: ServerRequest)

datatype root = LoggingMessageNotification string | OtherRoot string

text \<open>
  What \<^verbatim>\<open>wrap_message\<close> returns, by the tests the consumer loop applies to it, in the
  loop's order: an instance of \<^verbatim>\<open>Exception\<close>, an object with a \<^verbatim>\<open>request\<close> attribute,
  an object with a \<^verbatim>\<open>root\<close> attribute, anything else.
\<close>

datatype message =
    ExceptionItem exn
  | RequestItem RequestResponder
  | RootItem root
  | PlainItem

text \<open>
  The inbound stream as the \<^verbatim>\<open>async for\<close> sees it: the items it yields and how the
  iteration ends after them. \<open>None\<close> is the end of the stream (the iterator stops);
  \<open>Some e\<close> is the exception that fetching the next item raises.
\<close>

datatype 'raw in_stream = Stream (items: "'raw list") (ending: "exn option")

subsection \<open>The session\<close>

text \<open>
  The attributes of \<^verbatim>\<open>McpClientSession\<close>. \<open>read_stream\<close>, \<open>incoming_messages\<close> and
  \<open>incoming_messages'\<close> are \<^verbatim>\<open>_read_stream\<close>, \<^verbatim>\<open>incoming_messages\<close> and
  \<^verbatim>\<open>_incoming_messages\<close>; an attribute that is absent or \<^verbatim>\<open>None\<close> is \<open>None\<close>.
  \<open>session_request_id\<close> is the base class's counter \<^verbatim>\<open>_request_id\<close>, \<open>write_stream\<close>
  the envelopes written to \<^verbatim>\<open>_write_stream\<close> so far, \<open>log\<close> what the session's
  methods have logged. There is no attribute that records a session state.
\<close>

record 'raw McpClientSession =
  read_stream :: "'raw in_stream"
  incoming_messages :: "'raw in_stream option"
  incoming_messages' :: "'raw in_stream option"
  session_request_id :: int
  write_stream :: "Envelope list"
  read_timeout_seconds :: "int option"
  log :: "log_entry list"

definition logger :: "'raw McpClientSession \<Rightarrow> log_entry \<Rightarrow> 'raw McpClientSession" where
  "logger s e = s\<lparr>log := log s @ [e]\<rparr>"

text \<open>
  \<^verbatim>\<open>__init__\<close>: the base class's constructor (counter at 0, the two streams and the
  timeout stored), then the three assignments of the read stream.
\<close>

definition init ::
  "'raw in_stream \<Rightarrow> Envelope list \<Rightarrow> int option \<Rightarrow> 'raw McpClientSession" where
  "init rs ws timeout =
     \<lparr>read_stream = rs,
      incoming_messages = Some rs,
      incoming_messages' = Some rs,
      session_request_id = 0,
      write_stream = ws,
      read_timeout_seconds = timeout,
      log = []\<rparr>"

text \<open>
  \<^verbatim>\<open>__aenter__\<close>, up to the start of the consumer task: the stream is attached again
  when the attribute is missing.
\<close>

definition aenter :: "'raw McpClientSession \<Rightarrow> 'raw McpClientSession" where
  "aenter s =
     (if incoming_messages s = None
      then logger
             (s\<lparr>incoming_messages := Some (read_stream s),
                incoming_messages' := Some (read_stream s)\<rparr>)
             (Log DEBUG ''SETTING self.incoming_messages: '')
      else s)"

subsection \<open>The inherited primitives\<close>

text \<open>
  Modelled from the spec: \<^verbatim>\<open>BaseSession.send_request\<close>, the Correlator's \<open>send\<close>, is
  inherited from the \<^verbatim>\<open>mcp\<close> library and is not in the file. It allocates the next
  request id, writes a \<open>Request\<close> envelope to the outbound stream and suspends the
  caller until the matching response arrives. The outcome of that wait is the argument
  \<open>response\<close>: the typed result, or the exception raised to the caller. The call
  consults no session state before it writes.
\<close>

definition send_request ::
  "'raw McpClientSession \<Rightarrow> ClientRequest \<Rightarrow> exn + 'r \<Rightarrow> (exn + 'r) \<times> 'raw McpClientSession" where
  "send_request s req response =
     (response,
      s\<lparr>session_request_id := session_request_id s + 1,
        write_stream := write_stream s @ [Request (IdInt (session_request_id s)) req]\<rparr>)"

text \<open>
  Modelled from the spec: \<^verbatim>\<open>BaseSession.send_notification\<close>, also inherited, writes a
  \<open>Notification\<close> envelope and waits for nothing.
\<close>

definition send_notification ::
  "'raw McpClientSession \<Rightarrow> ClientNotification \<Rightarrow> 'raw McpClientSession" where
  "send_notification s notification =
     s\<lparr>write_stream := write_stream s @ [Notification notification]\<rparr>"

text \<open>
  Modelled from the spec: \<^verbatim>\<open>RequestResponder.respond\<close>, of the same library, writes a
  \<open>Response\<close> envelope that carries the result under the id of the request it answers.
\<close>

definition respond ::
  "'raw McpClientSession \<Rightarrow> RequestResponder \<Rightarrow> ClientResult \<Rightarrow> 'raw McpClientSession" where
  "respond s responder response =
     s\<lparr>write_stream := write_stream s @ [Response (request_id responder) response]\<rparr>"

subsection \<open>The handshake\<close>

definition initialize ::
  "module_constants \<Rightarrow> 'raw McpClientSession \<Rightarrow> exn + InitializeResult
     \<Rightarrow> (exn + InitializeResult) \<times> 'raw McpClientSession" where
  "initialize types s response =
     (case send_request s
             (InitializeRequest ''initialize''
                (InitializeRequestParams
                   (LATEST_PROTOCOL_VERSION types)
                   (ClientCapabilities
                      (Some SamplingCapability)
                      None
                      (Some (RootsCapability (Some True))))
                   (Implementation ''MCP-Bridge'' (version types))))
             response of
        (Inl e, s1) \<Rightarrow> (Inl e, s1)
      | (Inr result, s1) \<Rightarrow>
          if result_protocolVersion result \<notin> set (SUPPORTED_PROTOCOL_VERSIONS types)
          then (Inl (RuntimeError
                  (''Unsupported protocol version from the server: ''
                     @ result_protocolVersion result)), s1)
          else (Inr result,
                send_notification s1 (InitializedNotification ''notifications/initialized'')))"

subsection \<open>The outbound calls\<close>

definition send_ping ::
  "'raw McpClientSession \<Rightarrow> exn + 'r \<Rightarrow> (exn + 'r) \<times> 'raw McpClientSession" where
  "send_ping s response = send_request s (PingRequest ''ping'') response"

definition send_progress_notification ::
  "'raw McpClientSession \<Rightarrow> ProgressToken \<Rightarrow> float \<Rightarrow> float option \<Rightarrow> 'raw McpClientSession" where
  "send_progress_notification s progress_token progress total' =
     send_notification s
       (ProgressNotification ''notifications/progress'' progress_token progress total')"

definition set_logging_level ::
  "'raw McpClientSession \<Rightarrow> LoggingLevel \<Rightarrow> exn + 'r \<Rightarrow> (exn + 'r) \<times> 'raw McpClientSession" where
  "set_logging_level s lvl response =
     send_request s (SetLevelRequest ''logging/setLevel'' lvl) response"

definition list_resources ::
  "'raw McpClientSession \<Rightarrow> exn + 'r \<Rightarrow> (exn + 'r) \<times> 'raw McpClientSession" where
  "list_resources s response = send_request s (ListResourcesRequest ''resources/list'') response"

definition read_resource ::
  "'raw McpClientSession \<Rightarrow> AnyUrl \<Rightarrow> exn + 'r \<Rightarrow> (exn + 'r) \<times> 'raw McpClientSession" where
  "read_resource s uri response =
     send_request s (ReadResourceRequest ''resources/read'' uri) response"

definition subscribe_resource ::
  "'raw McpClientSession \<Rightarrow> AnyUrl \<Rightarrow> exn + 'r \<Rightarrow> (exn + 'r) \<times> 'raw McpClientSession" where
  "subscribe_resource s uri response =
     send_request s (SubscribeRequest ''resources/subscribe'' uri) response"

definition unsubscribe_resource ::
  "'raw McpClientSession \<Rightarrow> AnyUrl \<Rightarrow> exn + 'r \<Rightarrow> (exn + 'r) \<times> 'raw McpClientSession" where
  "unsubscribe_resource s uri response =
     send_request s (UnsubscribeRequest ''resources/unsubscribe'' uri) response"

definition call_tool ::
  "'raw McpClientSession \<Rightarrow> string \<Rightarrow> dict option \<Rightarrow> exn + 'r
     \<Rightarrow> (exn + 'r) \<times> 'raw McpClientSession" where
  "call_tool s name arguments response =
     send_request s (CallToolRequest ''tools/call'' name arguments) response"

definition list_prompts ::
  "'raw McpClientSession \<Rightarrow> exn + 'r \<Rightarrow> (exn + 'r) \<times> 'raw McpClientSession" where
  "list_prompts s response = send_request s (ListPromptsRequest ''prompts/list'') response"

definition get_prompt ::
  "'raw McpClientSession \<Rightarrow> string \<Rightarrow> dict option \<Rightarrow> exn + 'r
     \<Rightarrow> (exn + 'r) \<times> 'raw McpClientSession" where
  "get_prompt s name arguments response =
     send_request s (GetPromptRequest ''prompts/get'' name arguments) response"

text \<open>
  \<^verbatim>\<open>types.CompletionArgument(**argument)\<close>: the dictionary is unpacked into the keywords
  of a model with the required fields \<^verbatim>\<open>name\<close> and \<^verbatim>\<open>value\<close>; the constructor raises
  when one of them is missing, before anything is sent.
\<close>

definition CompletionArgument_of :: "dict \<Rightarrow> exn + CompletionArgument" where
  "CompletionArgument_of argument =
     (case map_of argument ''name'' of
        None \<Rightarrow> Inl (ValidationError ''name'')
      | Some n \<Rightarrow>
          (case map_of argument ''value'' of
             None \<Rightarrow> Inl (ValidationError ''value'')
           | Some v \<Rightarrow> Inr (CompletionArgument n v)))"

definition complete ::
  "'raw McpClientSession \<Rightarrow> reference \<Rightarrow> dict \<Rightarrow> exn + 'r
     \<Rightarrow> (exn + 'r) \<times> 'raw McpClientSession" where
  "complete s ref argument response =
     (case CompletionArgument_of argument of
        Inl e \<Rightarrow> (Inl e, s)
      | Inr a \<Rightarrow> send_request s (CompleteRequest ''completion/complete'' ref a) response)"

definition list_tools ::
  "'raw McpClientSession \<Rightarrow> exn + 'r \<Rightarrow> (exn + 'r) \<times> 'raw McpClientSession" where
  "list_tools s response = send_request s (ListToolsRequest ''tools/list'') response"

definition send_roots_list_changed :: "'raw McpClientSession \<Rightarrow> 'raw McpClientSession" where
  "send_roots_list_changed s =
     send_notification s (RootsListChangedNotification ''notifications/roots/list_changed'')"

subsection \<open>Requests of the peer\<close>

text \<open>
  \<^verbatim>\<open>handle_sampling_message\<close> is imported from \<^verbatim>\<open>mcp_bridge.sampling.sampler\<close> and
  \<^verbatim>\<open>wrap_message\<close> from \<^verbatim>\<open>mcp_bridge.utils.message_adapter\<close>; neither is in the file.
  Both are arguments of the functions that call them, and both may raise.
\<close>

type_synonym sampling_function_signature =
  "CreateMessageRequestParams \<Rightarrow> exn + CreateMessageResult"

definition sample ::
  "sampling_function_signature \<Rightarrow> 'raw McpClientSession \<Rightarrow> CreateMessageRequestParams
     \<Rightarrow> (exn + CreateMessageResult) \<times> 'raw McpClientSession" where
  "sample handle_sampling_message s params =
     (let s1 = logger s (Log INFO ''got sampling request from mcp server'')
      in case handle_sampling_message params of
           Inl e \<Rightarrow> (Inl e, s1)
         | Inr resp \<Rightarrow>
             (Inr resp, logger s1 (Log INFO ''finished sampling request from mcp server'')))"

definition received_request ::
  "sampling_function_signature \<Rightarrow> 'raw McpClientSession \<Rightarrow> RequestResponder
     \<Rightarrow> (exn + unit) \<times> 'raw McpClientSession" where
  "received_request handle_sampling_message s responder =
     (case request responder of
        CreateMessageRequest params \<Rightarrow>
          (case sample handle_sampling_message s params of
             (Inl e, s1) \<Rightarrow> (Inl e, s1)
           | (Inr response, s1) \<Rightarrow>
               (Inr (), respond s1 responder (ClientResult (model_dump response))))
      | OtherServerRequest _ \<Rightarrow> (Inr (), s))"

subsection \<open>The consumer loop\<close>

text \<open>
  The body of the inner \<^verbatim>\<open>try\<close> of \<^verbatim>\<open>_consume_messages\<close>: one item is wrapped and
  handled by its kind. What \<^verbatim>\<open>_received_request\<close> raises is caught here, in the
  request branch, and logged; what \<^verbatim>\<open>wrap_message\<close> raises leaves the body.
\<close>

definition process_message ::
  "('raw \<Rightarrow> exn + message) \<Rightarrow> sampling_function_signature \<Rightarrow> 'raw McpClientSession \<Rightarrow> 'raw
     \<Rightarrow> (exn + unit) \<times> 'raw McpClientSession" where
  "process_message wrap_message handle_sampling_message s original_message =
     (case wrap_message original_message of
        Inl e \<Rightarrow> (Inl e, s)
      | Inr (ExceptionItem e) \<Rightarrow>
          (Inr (), logger s (Log ERROR ''Received exception in message stream: ''))
      | Inr (RequestItem responder) \<Rightarrow>
          (case received_request handle_sampling_message
                  (logger s (Log DEBUG ''Received request: '')) responder of
             (Inl req_err, s1) \<Rightarrow>
               (Inr (), logger s1 (LogException ''Error handling request: '' req_err))
           | (Inr u, s1) \<Rightarrow> (Inr (), s1))
      | Inr (RootItem (LoggingMessageNotification params)) \<Rightarrow>
          (Inr (), logger s (Log DEBUG ''Received notification from server: ''))
      | Inr (RootItem (OtherRoot r)) \<Rightarrow>
          (Inr (), logger s (Log DEBUG ''Received notification from server: ''))
      | Inr PlainItem \<Rightarrow> (Inr (), logger s (Log DEBUG ''Received message: '')))"

text \<open>
  The \<^verbatim>\<open>async for\<close> with the two handlers of the inner \<^verbatim>\<open>try\<close>: a
  \<^verbatim>\<open>ClosedResourceError\<close> out of the body breaks the loop, any other exception is logged
  and the loop goes on. When the items are used up the iteration ends as the stream
  ends: it stops, or it raises into the outer \<^verbatim>\<open>try\<close>.
\<close>

fun iterate ::
  "('raw \<Rightarrow> exn + message) \<Rightarrow> sampling_function_signature \<Rightarrow> 'raw McpClientSession
     \<Rightarrow> 'raw list \<Rightarrow> exn option \<Rightarrow> (exn + unit) \<times> 'raw McpClientSession" where
  "iterate wrap_message handle_sampling_message s [] None = (Inr (), s)"
| "iterate wrap_message handle_sampling_message s [] (Some e) = (Inl e, s)"
| "iterate wrap_message handle_sampling_message s (original_message # rest) end_of_stream =
     (case process_message wrap_message handle_sampling_message s original_message of
        (Inl e, s1) \<Rightarrow>
          if e = ClosedResourceError
          then (Inr (), logger s1 (Log DEBUG ''Message stream closed''))
          else iterate wrap_message handle_sampling_message
                 (logger s1 (LogException ''Error processing message: '' e)) rest end_of_stream
      | (Inr u, s1) \<Rightarrow> iterate wrap_message handle_sampling_message s1 rest end_of_stream)"

text \<open>
  The outer \<^verbatim>\<open>try\<close>: the loop with the two handlers of lines 99 to 102. Both log and
  fall through to the end of the method.
\<close>

definition consume_stream ::
  "('raw \<Rightarrow> exn + message) \<Rightarrow> sampling_function_signature \<Rightarrow> 'raw McpClientSession
     \<Rightarrow> 'raw in_stream \<Rightarrow> (exn + unit) \<times> 'raw McpClientSession" where
  "consume_stream wrap_message handle_sampling_message s stream =
     (case iterate wrap_message handle_sampling_message s (items stream) (ending stream) of
        (Inl e, s1) \<Rightarrow>
          if e = ClosedResourceError
          then (Inr (), logger s1 (Log DEBUG ''Message stream closed''))
          else (Inr (), logger s1 (LogException ''Message consumer task failed: '' e))
      | (Inr u, s1) \<Rightarrow> (Inr (), s1))"

text \<open>\<^verbatim>\<open>_consume_messages\<close>: the guard on the attribute, then the loop.\<close>

definition consume_messages ::
  "('raw \<Rightarrow> exn + message) \<Rightarrow> sampling_function_signature \<Rightarrow> 'raw McpClientSession
     \<Rightarrow> (exn + unit) \<times> 'raw McpClientSession" where
  "consume_messages wrap_message handle_sampling_message s =
     (let s0 = logger s (Log INFO ''McpClientSession has incoming_messages: '')
      in case incoming_messages s0 of
           None \<Rightarrow> (Inr (), logger s0 (Log WARNING ''incoming_messages not found or is None''))
         | Some stream \<Rightarrow>
             consume_stream wrap_message handle_sampling_message
               (logger s0 (Log INFO ''incoming_messages type: '')) stream)"

subsection \<open>Observations\<close>

text \<open>
  What a call wrote: the envelopes of the later session's outbound stream that come
  after those of the earlier one.
\<close>

definition sent :: "'raw McpClientSession \<Rightarrow> 'raw McpClientSession \<Rightarrow> Envelope list" where
  "sent s s' = drop (length (write_stream s)) (write_stream s')"

text \<open>The handshake payload of an envelope, when it is an \<open>initialize\<close> request.\<close>

fun initialize_params :: "Envelope \<Rightarrow> InitializeRequestParams option" where
  "initialize_params (Request _ (InitializeRequest _ p)) = Some p"
| "initialize_params _ = None"

section \<open>The handshake\<close>

lemma sent_send_request:
  "sent s (snd (send_request s req r)) = [Request (IdInt (session_request_id s)) req]"
  by (simp add: sent_def send_request_def)

lemma sent_send_notification:
  "sent s (send_notification s n) = [Notification n]"
  by (simp add: sent_def send_notification_def)

text \<open>The three ways through \<^verbatim>\<open>initialize\<close>, by the outcome of the request.\<close>

lemma initialize_raises:
  "initialize types s (Inl e) =
     (Inl e,
      snd (send_request s
             (InitializeRequest ''initialize''
                (InitializeRequestParams
                   (LATEST_PROTOCOL_VERSION types)
                   (ClientCapabilities (Some SamplingCapability) None
                      (Some (RootsCapability (Some True))))
                   (Implementation ''MCP-Bridge'' (version types))))
             (Inl e :: exn + InitializeResult)))"
  by (simp add: initialize_def send_request_def)

lemma initialize_unsupported:
  "result_protocolVersion result \<notin> set (SUPPORTED_PROTOCOL_VERSIONS types) \<Longrightarrow>
   initialize types s (Inr result) =
     (Inl (RuntimeError
             (''Unsupported protocol version from the server: ''
                @ result_protocolVersion result)),
      snd (send_request s
             (InitializeRequest ''initialize''
                (InitializeRequestParams
                   (LATEST_PROTOCOL_VERSION types)
                   (ClientCapabilities (Some SamplingCapability) None
                      (Some (RootsCapability (Some True))))
                   (Implementation ''MCP-Bridge'' (version types))))
             (Inr result)))"
  by (simp add: initialize_def send_request_def)

lemma initialize_supported:
  "result_protocolVersion result \<in> set (SUPPORTED_PROTOCOL_VERSIONS types) \<Longrightarrow>
   initialize types s (Inr result) =
     (Inr result,
      send_notification
        (snd (send_request s
                (InitializeRequest ''initialize''
                   (InitializeRequestParams
                      (LATEST_PROTOCOL_VERSION types)
                      (ClientCapabilities (Some SamplingCapability) None
                         (Some (RootsCapability (Some True))))
                      (Implementation ''MCP-Bridge'' (version types))))
                (Inr result)))
        (InitializedNotification ''notifications/initialized''))"
  by (simp add: initialize_def send_request_def)

lemma initialize_first_envelope:
  "take 1 (sent s (snd (initialize types s response))) =
     [Request (IdInt (session_request_id s))
        (InitializeRequest ''initialize''
           (InitializeRequestParams
              (LATEST_PROTOCOL_VERSION types)
              (ClientCapabilities (Some SamplingCapability) None
                 (Some (RootsCapability (Some True))))
              (Implementation ''MCP-Bridge'' (version types))))]"
proof (cases response)
  case (Inl e)
  then show ?thesis by (simp add: initialize_raises sent_def send_request_def)
next
  case (Inr result)
  then show ?thesis
    by (cases "result_protocolVersion result \<in> set (SUPPORTED_PROTOCOL_VERSIONS types)")
       (simp_all add: initialize_supported initialize_unsupported sent_def send_request_def
          send_notification_def)
qed

text \<open>
  C1, as the code has it. When the peer's reply carries a \<open>protocolVersion\<close> outside
  \<^verbatim>\<open>SUPPORTED_PROTOCOL_VERSIONS\<close>, \<^verbatim>\<open>initialize\<close> raises the \<^verbatim>\<open>RuntimeError\<close> instead of
  returning a result and has written the \<open>initialize\<close> request only, no
  \<open>notifications/initialized\<close>. When the version is in the set, \<^verbatim>\<open>initialize\<close> returns
  the peer's result.
\<close>

theorem initialize_version_check:
  "(result_protocolVersion result \<notin> set (SUPPORTED_PROTOCOL_VERSIONS types) \<longrightarrow>
      fst (initialize types s (Inr result)) =
        Inl (RuntimeError (''Unsupported protocol version from the server: ''
               @ result_protocolVersion result))
      \<and> map wire_method (sent s (snd (initialize types s (Inr result)))) = [Some ''initialize''])
   \<and> (result_protocolVersion result \<in> set (SUPPORTED_PROTOCOL_VERSIONS types) \<longrightarrow>
      fst (initialize types s (Inr result)) = Inr result)"
  by (simp add: initialize_supported initialize_unsupported sent_send_request)

text \<open>
  The theorem at a peer that answers \<open>1.0\<close> and at one that answers the supported
  \<open>2024-11-05\<close>.
\<close>

theorem initialize_version_check_witness:
  "fst (initialize \<lparr>LATEST_PROTOCOL_VERSION = ''2024-11-05'',
          SUPPORTED_PROTOCOL_VERSIONS = [''2024-11-05''], version = ''0.1''\<rparr>
        (init (Stream ([] :: nat list) None) [] None)
        (Inr (InitializeResult ''1.0'' ''peer'')))
     = Inl (RuntimeError ''Unsupported protocol version from the server: 1.0'')
   \<and> fst (initialize \<lparr>LATEST_PROTOCOL_VERSION = ''2024-11-05'',
          SUPPORTED_PROTOCOL_VERSIONS = [''2024-11-05''], version = ''0.1''\<rparr>
        (init (Stream ([] :: nat list) None) [] None)
        (Inr (InitializeResult ''2024-11-05'' ''peer'')))
     = Inr (InitializeResult ''2024-11-05'' ''peer'')"
  using initialize_version_check
          [of "InitializeResult ''1.0'' ''peer''"
              "\<lparr>LATEST_PROTOCOL_VERSION = ''2024-11-05'',
                SUPPORTED_PROTOCOL_VERSIONS = [''2024-11-05''], version = ''0.1''\<rparr>"
              "init (Stream ([] :: nat list) None) [] None"]
        initialize_version_check
          [of "InitializeResult ''2024-11-05'' ''peer''"
              "\<lparr>LATEST_PROTOCOL_VERSION = ''2024-11-05'',
                SUPPORTED_PROTOCOL_VERSIONS = [''2024-11-05''], version = ''0.1''\<rparr>"
              "init (Stream ([] :: nat list) None) [] None"]
  by simp

text \<open>
  C1 as the claim words it does not hold: the session keeps no state, so the failed
  handshake blocks nothing. After \<^verbatim>\<open>initialize\<close> has raised on the version \<open>1.0\<close>, a
  \<^verbatim>\<open>send_ping\<close> on the same session writes its request under the next id and returns
  the peer's reply.
\<close>

theorem initialize_unsupported_session_still_usable:
  "fst (initialize \<lparr>LATEST_PROTOCOL_VERSION = ''2024-11-05'',
          SUPPORTED_PROTOCOL_VERSIONS = [''2024-11-05''], version = ''0.1''\<rparr>
        (init (Stream ([] :: nat list) None) [] None)
        (Inr (InitializeResult ''1.0'' ''peer'')))
     = Inl (RuntimeError ''Unsupported protocol version from the server: 1.0'')
   \<and> fst (send_ping
        (snd (initialize \<lparr>LATEST_PROTOCOL_VERSION = ''2024-11-05'',
          SUPPORTED_PROTOCOL_VERSIONS = [''2024-11-05''], version = ''0.1''\<rparr>
        (init (Stream ([] :: nat list) None) [] None)
        (Inr (InitializeResult ''1.0'' ''peer''))))
        (Inr ''pong'' :: exn + string)) = Inr ''pong''
   \<and> write_stream (snd (send_ping
        (snd (initialize \<lparr>LATEST_PROTOCOL_VERSION = ''2024-11-05'',
          SUPPORTED_PROTOCOL_VERSIONS = [''2024-11-05''], version = ''0.1''\<rparr>
        (init (Stream ([] :: nat list) None) [] None)
        (Inr (InitializeResult ''1.0'' ''peer''))))
        (Inr ''pong'' :: exn + string)))
     = [Request (IdInt 0)
          (InitializeRequest ''initialize''
             (InitializeRequestParams ''2024-11-05''
                (ClientCapabilities (Some SamplingCapability) None
                   (Some (RootsCapability (Some True))))
                (Implementation ''MCP-Bridge'' ''0.1''))),
        Request (IdInt 1) (PingRequest ''ping'')]"
  by (simp add: initialize_def send_request_def send_ping_def init_def)

text \<open>
  C7. Every call of \<^verbatim>\<open>initialize\<close> first writes an \<open>initialize\<close> request whose payload
  declares the sampling capability, \<open>roots.listChanged = True\<close> and the client's name
  and version. When the peer's result carries a supported version, the call returns
  that result and the only other envelope it has written is the
  \<open>notifications/initialized\<close> notification, for which it awaits no reply.
\<close>

theorem initialize_handshake:
  "take 1 (sent s (snd (initialize types s response))) =
     [Request (IdInt (session_request_id s))
        (InitializeRequest ''initialize''
           (InitializeRequestParams
              (LATEST_PROTOCOL_VERSION types)
              (ClientCapabilities (Some SamplingCapability) None
                 (Some (RootsCapability (Some True))))
              (Implementation ''MCP-Bridge'' (version types))))]
   \<and> (response = Inr result \<and>
        result_protocolVersion result \<in> set (SUPPORTED_PROTOCOL_VERSIONS types) \<longrightarrow>
        fst (initialize types s response) = Inr result \<and>
        drop 1 (sent s (snd (initialize types s response))) =
          [Notification (InitializedNotification ''notifications/initialized'')])"
proof (intro conjI impI)
  show "take 1 (sent s (snd (initialize types s response))) =
     [Request (IdInt (session_request_id s))
        (InitializeRequest ''initialize''
           (InitializeRequestParams
              (LATEST_PROTOCOL_VERSION types)
              (ClientCapabilities (Some SamplingCapability) None
                 (Some (RootsCapability (Some True))))
              (Implementation ''MCP-Bridge'' (version types))))]"
    by (rule initialize_first_envelope)
next
  assume a: "response = Inr result \<and>
        result_protocolVersion result \<in> set (SUPPORTED_PROTOCOL_VERSIONS types)"
  then show "fst (initialize types s response) = Inr result"
    by (simp add: initialize_supported)
  from a show "drop 1 (sent s (snd (initialize types s response))) =
          [Notification (InitializedNotification ''notifications/initialized'')]"
    by (simp add: initialize_supported sent_def send_request_def send_notification_def)
qed

text \<open>The handshake of a fresh session with a peer that answers \<open>2024-11-05\<close>.\<close>

theorem initialize_handshake_witness:
  "fst (initialize \<lparr>LATEST_PROTOCOL_VERSION = ''2024-11-05'',
          SUPPORTED_PROTOCOL_VERSIONS = [''2024-11-05''], version = ''0.1''\<rparr>
        (init (Stream ([] :: nat list) None) [] None)
        (Inr (InitializeResult ''2024-11-05'' ''peer'')))
     = Inr (InitializeResult ''2024-11-05'' ''peer'')
   \<and> sent (init (Stream ([] :: nat list) None) [] None)
        (snd (initialize \<lparr>LATEST_PROTOCOL_VERSION = ''2024-11-05'',
          SUPPORTED_PROTOCOL_VERSIONS = [''2024-11-05''], version = ''0.1''\<rparr>
        (init (Stream ([] :: nat list) None) [] None)
        (Inr (InitializeResult ''2024-11-05'' ''peer''))))
     = [Request (IdInt 0)
        (InitializeRequest ''initialize''
           (InitializeRequestParams ''2024-11-05''
              (ClientCapabilities (Some SamplingCapability) None
                 (Some (RootsCapability (Some True))))
              (Implementation ''MCP-Bridge'' ''0.1''))),
        Notification (InitializedNotification ''notifications/initialized'')]"
proof -
  let ?T = "\<lparr>LATEST_PROTOCOL_VERSION = ''2024-11-05'',
          SUPPORTED_PROTOCOL_VERSIONS = [''2024-11-05''], version = ''0.1''\<rparr>"
  let ?s = "init (Stream ([] :: nat list) None) [] None"
  let ?r = "InitializeResult ''2024-11-05'' ''peer''"
  have h: "Inr ?r = (Inr ?r :: exn + InitializeResult) \<and>
        result_protocolVersion ?r \<in> set (SUPPORTED_PROTOCOL_VERSIONS ?T)" by simp
  from initialize_handshake [of ?s ?T "Inr ?r" ?r] h
  have 1: "take 1 (sent ?s (snd (initialize ?T ?s (Inr ?r)))) =
     [Request (IdInt (session_request_id ?s))
        (InitializeRequest ''initialize''
           (InitializeRequestParams
              (LATEST_PROTOCOL_VERSION ?T)
              (ClientCapabilities (Some SamplingCapability) None
                 (Some (RootsCapability (Some True))))
              (Implementation ''MCP-Bridge'' (version ?T))))]"
    and 2: "fst (initialize ?T ?s (Inr ?r)) = Inr ?r"
    and 3: "drop 1 (sent ?s (snd (initialize ?T ?s (Inr ?r)))) =
          [Notification (InitializedNotification ''notifications/initialized'')]"
    by blast+
  have "sent ?s (snd (initialize ?T ?s (Inr ?r))) =
     take 1 (sent ?s (snd (initialize ?T ?s (Inr ?r))))
       @ drop 1 (sent ?s (snd (initialize ?T ?s (Inr ?r))))"
    by simp
  with 1 3 have "sent ?s (snd (initialize ?T ?s (Inr ?r))) =
     [Request (IdInt (session_request_id ?s))
        (InitializeRequest ''initialize''
           (InitializeRequestParams
              (LATEST_PROTOCOL_VERSION ?T)
              (ClientCapabilities (Some SamplingCapability) None
                 (Some (RootsCapability (Some True))))
              (Implementation ''MCP-Bridge'' (version ?T)))),
      Notification (InitializedNotification ''notifications/initialized'')]"
    by simp
  with 2 show ?thesis by (simp add: init_def)
qed

text \<open>
  C10. The \<open>protocolVersion\<close> that \<^verbatim>\<open>initialize\<close> declares in its request is
  \<^verbatim>\<open>types.LATEST_PROTOCOL_VERSION\<close>, whatever the session and whatever the peer answers:
  it is the module's constant, and the method has no argument that could change it.
\<close>

theorem initialize_declares_latest_protocol_version:
  "map (map_option protocolVersion \<circ> initialize_params)
       (take 1 (sent s (snd (initialize types s response))))
     = [Some (LATEST_PROTOCOL_VERSION types)]"
  using initialize_first_envelope [of s types response] by simp

end
